theory Spec2Isabelle
  imports Main "HOL-Library.Word"
begin

section \<open>Python values, exceptions and the library functions the handlers call\<close>

text \<open>
  The eight task scripts under \<^verbatim>\<open>huggingface/tasks/\<close> each define one function
  \<^verbatim>\<open>handle(inputs)\<close>. They compute with untyped Python values, so the embedding has
  one datatype of values: \<^verbatim>\<open>None\<close>, \<^verbatim>\<open>bool\<close>, \<^verbatim>\<open>int\<close>, \<^verbatim>\<open>float\<close>, \<^verbatim>\<open>str\<close>,
  \<^verbatim>\<open>list\<close> and \<^verbatim>\<open>dict\<close> with string keys (an association list in insertion order, keys
  distinct). These are the values \<^verbatim>\<open>json.loads\<close> returns and \<^verbatim>\<open>json.dumps\<close> accepts. The
  audio array of a text to speech result is written as the nested list \<^verbatim>\<open>tolist()\<close>
  gives for it; other objects (tensors, images inside a result) are outside the datatype.
  The type \<open>'f\<close> stands for Python's floats: the handlers only move them around, and what
  the interpreter does with one (printing it, testing it for zero) is a parameter.
  A character of a \<open>string\<close> is one code point below 256.
\<close>

datatype 'f pyval =
    PNone
  | PBool bool
  | PInt int
  | PFloat 'f
  | PStr string
  | PList "'f pyval list"
  | PDict "(string \<times> 'f pyval) list"

text \<open>
  An exception is an instance of a subclass of \<^verbatim>\<open>Exception\<close> (what
  \<^verbatim>\<open>except Exception as e\<close> catches): its class name and the text \<^verbatim>\<open>str(e)\<close>.
\<close>

datatype exn = Exn (exn_class: string) (exn_str: string)

type_synonym bytes = "8 word list"

text \<open>A PIL image object, known only by an opaque handle.\<close>

datatype image = Image nat

definition dq :: char where "dq = CHR 0x22"
definition sq :: char where "sq = CHR 0x27"
definition backslash :: char where "backslash = CHR 0x5C"

definition quoted :: "string \<Rightarrow> string" where
  "quoted s = sq # s @ [sq]"

fun type_name :: "'f pyval \<Rightarrow> string" where
  "type_name PNone = ''NoneType''"
| "type_name (PBool _) = ''bool''"
| "type_name (PInt _) = ''int''"
| "type_name (PFloat _) = ''float''"
| "type_name (PStr _) = ''str''"
| "type_name (PList _) = ''list''"
| "type_name (PDict _) = ''dict''"

subsection \<open>json.dumps\<close>

text \<open>
  \<^verbatim>\<open>json.dumps(v)\<close> with its defaults: separators \<^verbatim>\<open>", "\<close> and \<^verbatim>\<open>": "\<close>, and
  \<^verbatim>\<open>ensure_ascii=True\<close>, which writes every character outside \<^verbatim>\<open>' '..'~'\<close> as an
  escape. A float is printed by the parameter \<open>fr\<close> (\<^verbatim>\<open>float.__repr__\<close>, or
  \<^verbatim>\<open>NaN\<close>, \<^verbatim>\<open>Infinity\<close>, \<^verbatim>\<open>-Infinity\<close>).
\<close>

definition hex_digit :: "nat \<Rightarrow> char" where
  "hex_digit d = ''0123456789abcdef'' ! (d mod 16)"

definition json_escape_char :: "char \<Rightarrow> string" where
  "json_escape_char c =
     (if c = dq then [backslash, dq]
      else if c = backslash then [backslash, backslash]
      else if c = CHR 0x0A then [backslash, CHR ''n'']
      else if c = CHR 0x0D then [backslash, CHR ''r'']
      else if c = CHR 0x09 then [backslash, CHR ''t'']
      else if c = CHR 0x08 then [backslash, CHR ''b'']
      else if c = CHR 0x0C then [backslash, CHR ''f'']
      else if 32 \<le> (of_char c :: nat) \<and> (of_char c :: nat) \<le> 126 then [c]
      else [backslash, CHR ''u'', CHR ''0'', CHR ''0'',
            hex_digit ((of_char c :: nat) div 16), hex_digit ((of_char c :: nat) mod 16)])"

definition json_string :: "string \<Rightarrow> string" where
  "json_string s = dq # concat (map json_escape_char s) @ [dq]"

fun str_nat :: "nat \<Rightarrow> string" where
  "str_nat n = (if n < 10 then [hex_digit n] else str_nat (n div 10) @ [hex_digit (n mod 10)])"

definition str_int :: "int \<Rightarrow> string" where
  "str_int i = (if i < 0 then CHR ''-'' # str_nat (nat (- i)) else str_nat (nat i))"

fun json_dumps :: "('f \<Rightarrow> string) \<Rightarrow> 'f pyval \<Rightarrow> string"
  and dumps_items :: "('f \<Rightarrow> string) \<Rightarrow> 'f pyval list \<Rightarrow> string"
  and dumps_members :: "('f \<Rightarrow> string) \<Rightarrow> (string \<times> 'f pyval) list \<Rightarrow> string"
where
  "json_dumps fr PNone = ''null''"
| "json_dumps fr (PBool b) = (if b then ''true'' else ''false'')"
| "json_dumps fr (PInt i) = str_int i"
| "json_dumps fr (PFloat x) = fr x"
| "json_dumps fr (PStr s) = json_string s"
| "json_dumps fr (PList xs) = ''['' @ dumps_items fr xs @ '']''"
| "json_dumps fr (PDict kvs) = ''{'' @ dumps_members fr kvs @ ''}''"
| "dumps_items fr [] = []"
| "dumps_items fr [x] = json_dumps fr x"
| "dumps_items fr (x # y # ys) = json_dumps fr x @ '', '' @ dumps_items fr (y # ys)"
| "dumps_members fr [] = []"
| "dumps_members fr [(k, v)] = json_string k @ '': '' @ json_dumps fr v"
| "dumps_members fr ((k, v) # m # ms) =
     json_string k @ '': '' @ json_dumps fr v @ '', '' @ dumps_members fr (m # ms)"

text \<open>
  The error payload of every handler: \<^verbatim>\<open>json.dumps({"error": str(e)})\<close>. There is no
  float in it, so the float printer is never asked.
\<close>

definition error_payload :: "string \<Rightarrow> string" where
  "error_payload m = json_dumps (\<lambda>x :: unit. []) (PDict [(''error'', PStr m)])"

subsection \<open>Truth value, subscripts, membership\<close>

text \<open>
  The interpreter's own operations, on every value of the datatype, with the exception
  each raises in place of a result (messages as CPython 3.11 words them).
\<close>

fun truthy :: "('f \<Rightarrow> bool) \<Rightarrow> 'f pyval \<Rightarrow> bool" where
  "truthy nz PNone = False"
| "truthy nz (PBool b) = b"
| "truthy nz (PInt i) = (i \<noteq> 0)"
| "truthy nz (PFloat x) = nz x"
| "truthy nz (PStr s) = (s \<noteq> [])"
| "truthy nz (PList xs) = (xs \<noteq> [])"
| "truthy nz (PDict kvs) = (kvs \<noteq> [])"

fun isinstance_list :: "'f pyval \<Rightarrow> bool" where
  "isinstance_list (PList _) = True"
| "isinstance_list _ = False"

definition not_subscriptable :: "'f pyval \<Rightarrow> exn" where
  "not_subscriptable v = Exn ''TypeError'' (quoted (type_name v) @ '' object is not subscriptable'')"

definition KeyError_str :: "string \<Rightarrow> exn" where
  \<comment> \<open>\<^verbatim>\<open>KeyError(k)\<close> prints \<^verbatim>\<open>repr(k)\<close>; the keys used are plain identifiers.\<close>
  "KeyError_str k = Exn ''KeyError'' (quoted k)"

text \<open>\<^verbatim>\<open>v[0]\<close>\<close>

fun getitem_0 :: "'f pyval \<Rightarrow> exn + 'f pyval" where
  "getitem_0 (PList []) = Inl (Exn ''IndexError'' ''list index out of range'')"
| "getitem_0 (PList (x # _)) = Inr x"
| "getitem_0 (PStr []) = Inl (Exn ''IndexError'' ''string index out of range'')"
| "getitem_0 (PStr (c # _)) = Inr (PStr [c])"
| "getitem_0 (PDict _) = Inl (Exn ''KeyError'' ''0'')"
| "getitem_0 v = Inl (not_subscriptable v)"

text \<open>\<^verbatim>\<open>v[1:]\<close>\<close>

fun getslice_1 :: "'f pyval \<Rightarrow> exn + 'f pyval" where
  "getslice_1 (PList xs) = Inr (PList (drop 1 xs))"
| "getslice_1 (PStr s) = Inr (PStr (drop 1 s))"
| "getslice_1 (PDict _) = Inl (Exn ''TypeError'' (''unhashable type: '' @ quoted ''slice''))"
| "getslice_1 v = Inl (not_subscriptable v)"

text \<open>\<^verbatim>\<open>v[k]\<close> for a string \<open>k\<close>\<close>

fun getitem_str :: "'f pyval \<Rightarrow> string \<Rightarrow> exn + 'f pyval" where
  "getitem_str (PDict kvs) k =
     (case map_of kvs k of None \<Rightarrow> Inl (KeyError_str k) | Some v \<Rightarrow> Inr v)"
| "getitem_str (PList _) k =
     Inl (Exn ''TypeError'' ''list indices must be integers or slices, not str'')"
| "getitem_str (PStr _) k =
     Inl (Exn ''TypeError'' (''string indices must be integers, not '' @ quoted ''str''))"
| "getitem_str v k = Inl (not_subscriptable v)"

text \<open>\<^verbatim>\<open>v[k] = x\<close> for a string \<open>k\<close>: a dict keeps the key's place, or appends it.\<close>

fun dict_update :: "string \<Rightarrow> 'v \<Rightarrow> (string \<times> 'v) list \<Rightarrow> (string \<times> 'v) list" where
  "dict_update k x [] = [(k, x)]"
| "dict_update k x ((k', v) # kvs) =
     (if k' = k then (k, x) # kvs else (k', v) # dict_update k x kvs)"

fun setitem_str :: "'f pyval \<Rightarrow> string \<Rightarrow> 'f pyval \<Rightarrow> exn + 'f pyval" where
  "setitem_str (PDict kvs) k x = Inr (PDict (dict_update k x kvs))"
| "setitem_str (PList _) k x =
     Inl (Exn ''TypeError'' ''list indices must be integers or slices, not str'')"
| "setitem_str v k x =
     Inl (Exn ''TypeError'' (quoted (type_name v) @ '' object does not support item assignment''))"

text \<open>\<^verbatim>\<open>k in v\<close> for a string \<open>k\<close>: a key of a dict, an element of a list, a substring of a string.\<close>

fun is_substring :: "string \<Rightarrow> string \<Rightarrow> bool" where
  "is_substring k [] = (k = [])"
| "is_substring k (c # s) = (take (length k) (c # s) = k \<or> is_substring k s)"

fun contains_str :: "string \<Rightarrow> 'f pyval \<Rightarrow> exn + bool" where
  "contains_str k (PDict kvs) = Inr (k \<in> set (map fst kvs))"
| "contains_str k (PList xs) = Inr (PStr k \<in> set xs)"
| "contains_str k (PStr s) = Inr (is_substring k s)"
| "contains_str k v =
     Inl (Exn ''TypeError'' (''argument of type '' @ quoted (type_name v) @ '' is not iterable''))"

subsection \<open>numpy: squeeze and tolist\<close>

text \<open>
  \<^verbatim>\<open>np.squeeze(a).tolist()\<close>. An array is its shape and its elements in row-major order.
  \<^verbatim>\<open>np.asarray\<close> finds the shape of a nested list along the first elements and needs
  every sublist to agree with it; \<^verbatim>\<open>squeeze\<close> drops the axes of length one and leaves
  the elements where they are; \<^verbatim>\<open>tolist\<close> nests them again by the shape that is left.
\<close>

datatype 'f ndarray = NDArray (shape: "nat list") (elems: "'f list")

fun dims :: "'f pyval \<Rightarrow> nat list" where
  "dims (PList []) = [0]"
| "dims (PList (x # xs)) = Suc (length xs) # dims x"
| "dims _ = []"

fun has_shape :: "nat list \<Rightarrow> 'f pyval \<Rightarrow> bool" where
  "has_shape [] v = (\<not> isinstance_list v)"
| "has_shape (n # sh) (PList xs) = (length xs = n \<and> list_all (has_shape sh) xs)"
| "has_shape (n # sh) _ = False"

fun leaves :: "'f pyval \<Rightarrow> 'f pyval list" where
  "leaves (PList xs) = concat (map leaves xs)"
| "leaves v = [v]"

fun float_of :: "'f pyval \<Rightarrow> 'f option" where
  "float_of (PFloat x) = Some x"
| "float_of _ = None"

fun floats_of :: "'f pyval list \<Rightarrow> 'f list option" where
  "floats_of [] = Some []"
| "floats_of (v # vs) =
     (case float_of v of None \<Rightarrow> None
      | Some x \<Rightarrow> (case floats_of vs of None \<Rightarrow> None | Some xs \<Rightarrow> Some (x # xs)))"

definition asarray_floats :: "'f pyval \<Rightarrow> 'f ndarray option" where
  \<comment> \<open>the float array of a nested list of floats (or of one float); \<open>None\<close> for anything else\<close>
  "asarray_floats v =
     (if has_shape (dims v) v \<and> length (dims v) \<le> 32
      then (case floats_of (leaves v) of None \<Rightarrow> None | Some xs \<Rightarrow> Some (NDArray (dims v) xs))
      else None)"

definition squeeze :: "'f ndarray \<Rightarrow> 'f ndarray" where
  "squeeze a = NDArray (filter (\<lambda>n. n \<noteq> 1) (shape a)) (elems a)"

fun nest :: "nat list \<Rightarrow> 'f list \<Rightarrow> 'f pyval" where
  "nest [] xs = (case xs of [] \<Rightarrow> PNone | x # _ \<Rightarrow> PFloat x)"
| "nest (n # sh) xs =
     PList (map (\<lambda>i. nest sh (take (prod_list sh) (drop (i * prod_list sh) xs))) [0..<n])"

definition tolist :: "'f ndarray \<Rightarrow> 'f pyval" where
  \<comment> \<open>an array of shape \<open>()\<close> holds one element, and \<^verbatim>\<open>tolist\<close> gives that scalar\<close>
  "tolist a = nest (shape a) (elems a)"


section \<open>The environment of a handler\<close>

text \<open>
  What a script takes from outside its own text. The library functions whose results the
  handlers only pass on are parameters, so every theorem holds for each behaviour of
  theirs, raising included:
  \<^item> \<open>json_loads\<close>: \<^verbatim>\<open>json.loads\<close>;
  \<^item> \<open>float_repr\<close>, \<open>float_nonzero\<close>: how a float prints and whether it is true;
  \<^item> \<open>np_array_float32\<close>: \<^verbatim>\<open>np.array(v, dtype=np.float32)\<close>;
  \<^item> \<open>np_squeeze_other\<close>: \<^verbatim>\<open>np.squeeze(v).tolist()\<close> where \<open>v\<close> is not an array of floats;
  \<^item> \<open>png_save\<close>: \<^verbatim>\<open>image.save(buf, format="PNG"); buf.getvalue()\<close>;
  \<^item> \<open>manual_seed\<close>: the state \<^verbatim>\<open>torch.manual_seed(n)\<close> puts the global generator in;
  \<^item> \<open>pipe\<close>: the global \<^verbatim>\<open>pipe\<close> of a script, called with positional and keyword
    arguments in a generator state; it returns or raises, and leaves a generator state;
  \<^item> \<open>sd_pipe\<close>: the \<^verbatim>\<open>StableDiffusionPipeline\<close> of \<^verbatim>\<open>text_to_image.py\<close>, called
    with the prompt; its result is the \<^verbatim>\<open>images\<close> list of the output object.
\<close>

record ('f, 'r) runtime =
  json_loads :: "string \<Rightarrow> exn + 'f pyval"
  float_repr :: "'f \<Rightarrow> string"
  float_nonzero :: "'f \<Rightarrow> bool"
  np_array_float32 :: "'f pyval \<Rightarrow> exn + 'f pyval"
  np_squeeze_other :: "'f pyval \<Rightarrow> exn + 'f pyval"
  png_save :: "image \<Rightarrow> exn + bytes"
  manual_seed :: "int \<Rightarrow> 'r"
  pipe :: "'r \<Rightarrow> 'f pyval list \<Rightarrow> (string \<times> 'f pyval) list \<Rightarrow> (exn + 'f pyval) \<times> 'r"
  sd_pipe :: "'r \<Rightarrow> string \<Rightarrow> (exn + image list) \<times> 'r"

text \<open>
  The values the deployment writes into the placeholders \<^verbatim>\<open>%d\<close>, \<^verbatim>\<open>%s\<close>, \<^verbatim>\<open>%f\<close> inside
  \<^verbatim>\<open>handle\<close>. (Model, revision, device and \<^verbatim>\<open>top_k\<close> go into the construction of
  \<^verbatim>\<open>pipe\<close>, outside \<^verbatim>\<open>handle\<close>.)
\<close>

record 'f config =
  max_new_tokens :: int
  do_sample :: bool
  temperature :: 'f
  min_length :: int
  multi_label :: bool
  return_top_label_only :: bool

text \<open>
  Modelled from the spec: \<^verbatim>\<open>djl_python.Input\<close> is not among the sources. The request
  envelope "exposes size, and named string extraction": \<open>content_size\<close> is what
  \<^verbatim>\<open>inputs.content.size()\<close> returns and \<open>get_as_string\<close> what
  \<^verbatim>\<open>inputs.get_as_string(key)\<close> returns or raises.
\<close>

record Input =
  content_size :: nat
  get_as_string :: "string \<Rightarrow> exn + string"

text \<open>
  Modelled from the spec: \<^verbatim>\<open>djl_python.Output\<close> is not among the sources. The response
  envelope is an "ordered sequence of named parts"; \<^verbatim>\<open>Output()\<close> has none and
  \<^verbatim>\<open>add(value, key)\<close> appends one, a Python value or raw bytes.
\<close>

datatype 'f part = Py "'f pyval" | Raw bytes

datatype 'f Output = Output (parts: "(string \<times> 'f part) list")

definition Output_new :: "'f Output" where
  "Output_new = Output []"

definition add :: "'f part \<Rightarrow> string \<Rightarrow> 'f Output \<Rightarrow> 'f Output" where
  "add v k out = Output (parts out @ [(k, v)])"

text \<open>
  The state a call of \<^verbatim>\<open>handle\<close> reads and writes: the state of torch's global random
  generator, the calls made to the logging module, and, as a ghost trace, the calls made
  to the pipeline (generator state at the call, arguments).
\<close>

record ('f, 'r) world =
  rng :: 'r
  calls :: "('r \<times> 'f pyval list \<times> (string \<times> 'f pyval) list) list"
  log :: "(string \<times> string) list"

type_synonym ('a, 'f, 'r) prog = "('f, 'r) world \<Rightarrow> (exn + 'a) \<times> ('f, 'r) world"

definition ret :: "'a \<Rightarrow> ('a, 'f, 'r) prog" where
  "ret x = (\<lambda>s. (Inr x, s))"

definition raise :: "exn \<Rightarrow> ('a, 'f, 'r) prog" where
  "raise e = (\<lambda>s. (Inl e, s))"

definition lift :: "exn + 'a \<Rightarrow> ('a, 'f, 'r) prog" where
  "lift r = (\<lambda>s. (r, s))"

definition bind :: "('a, 'f, 'r) prog \<Rightarrow> ('a \<Rightarrow> ('b, 'f, 'r) prog) \<Rightarrow> ('b, 'f, 'r) prog" where
  "bind m f = (\<lambda>s. case m s of (Inl e, s') \<Rightarrow> (Inl e, s') | (Inr x, s') \<Rightarrow> f x s')"

definition try_except :: "('a, 'f, 'r) prog \<Rightarrow> (exn \<Rightarrow> ('a, 'f, 'r) prog) \<Rightarrow> ('a, 'f, 'r) prog" where
  "try_except m h = (\<lambda>s. case m s of (Inl e, s') \<Rightarrow> h e s' | (Inr x, s') \<Rightarrow> (Inr x, s'))"

definition logging_info :: "string \<Rightarrow> (unit, 'f, 'r) prog" where
  "logging_info msg = (\<lambda>s. (Inr (), s\<lparr>log := log s @ [(''INFO'', msg)]\<rparr>))"

definition logging_error :: "string \<Rightarrow> (unit, 'f, 'r) prog" where
  "logging_error msg = (\<lambda>s. (Inr (), s\<lparr>log := log s @ [(''ERROR'', msg)]\<rparr>))"

definition torch_manual_seed :: "('f, 'r) runtime \<Rightarrow> int \<Rightarrow> (unit, 'f, 'r) prog" where
  "torch_manual_seed rt n = (\<lambda>s. (Inr (), s\<lparr>rng := manual_seed rt n\<rparr>))"

definition call_pipe ::
  "('f, 'r) runtime \<Rightarrow> 'f pyval list \<Rightarrow> (string \<times> 'f pyval) list \<Rightarrow> ('f pyval, 'f, 'r) prog" where
  "call_pipe rt args kwargs =
     (\<lambda>s. case pipe rt (rng s) args kwargs of
             (res, r') \<Rightarrow> (res, s\<lparr>rng := r', calls := calls s @ [(rng s, args, kwargs)]\<rparr>))"

definition call_sd_pipe :: "('f, 'r) runtime \<Rightarrow> string \<Rightarrow> (image list, 'f, 'r) prog" where
  "call_sd_pipe rt prompt =
     (\<lambda>s. case sd_pipe rt (rng s) prompt of
             (res, r') \<Rightarrow> (res, s\<lparr>rng := r', calls := calls s @ [(rng s, [PStr prompt], [])]\<rparr>))"

section \<open>The handlers\<close>

text \<open>The first statement of every \<^verbatim>\<open>try\<close> block and the \<^verbatim>\<open>except\<close> clause are the same in all eight scripts.\<close>

definition warmup :: "('f Output, 'f, 'r) prog" where
  "warmup = bind (logging_info ''Handling warmup call - returning empty output'') (\<lambda>_. ret Output_new)"

definition on_exception :: "exn \<Rightarrow> ('f Output, 'f, 'r) prog" where
  "on_exception e =
     bind (logging_error (''Error in handle function: '' @ exn_str e))
       (\<lambda>_. ret (add (Py (PStr (error_payload (exn_str e)))) ''data'' Output_new))"

subsection \<open>automatic_speech_recognition.py\<close>

definition asr_try :: "('f, 'r) runtime \<Rightarrow> Input \<Rightarrow> ('f Output, 'f, 'r) prog" where
  "asr_try rt inputs =
     (if content_size inputs = 0 then warmup
      else bind (lift (get_as_string inputs ''data'')) (\<lambda>input_str.
           bind (lift (json_loads rt input_str)) (\<lambda>waveform_list.
           bind (lift (np_array_float32 rt waveform_list)) (\<lambda>waveform.
           bind (call_pipe rt [waveform] []) (\<lambda>result.
           ret (add (Py (PStr (json_dumps (float_repr rt) result))) ''data'' Output_new))))))"

definition asr_handle :: "('f, 'r) runtime \<Rightarrow> Input \<Rightarrow> ('f Output, 'f, 'r) prog" where
  "asr_handle rt inputs = try_except (asr_try rt inputs) on_exception"

subsection \<open>chat.py\<close>

definition chat_try :: "'f config \<Rightarrow> ('f, 'r) runtime \<Rightarrow> Input \<Rightarrow> ('f Output, 'f, 'r) prog" where
  "chat_try cfg rt inputs =
     (if content_size inputs = 0 then warmup
      else bind (lift (get_as_string inputs ''data'')) (\<lambda>input_str.
           bind (lift (json_loads rt input_str)) (\<lambda>messages.
           bind (torch_manual_seed rt 42) (\<lambda>_.
           bind (call_pipe rt [messages]
                   [(''max_new_tokens'', PInt (max_new_tokens cfg)),
                    (''do_sample'', PBool (do_sample cfg)),
                    (''temperature'', PFloat (temperature cfg))]) (\<lambda>result.
           ret (add (Py (PStr (json_dumps (float_repr rt) result))) ''data'' Output_new))))))"

definition chat_handle :: "'f config \<Rightarrow> ('f, 'r) runtime \<Rightarrow> Input \<Rightarrow> ('f Output, 'f, 'r) prog" where
  "chat_handle cfg rt inputs = try_except (chat_try cfg rt inputs) on_exception"

subsection \<open>question_answering.py\<close>

definition qa_try :: "('f, 'r) runtime \<Rightarrow> Input \<Rightarrow> ('f Output, 'f, 'r) prog" where
  "qa_try rt inputs =
     (if content_size inputs = 0 then warmup
      else bind (lift (get_as_string inputs ''data'')) (\<lambda>input_str.
           bind (torch_manual_seed rt 42) (\<lambda>_.
           bind (lift (json_loads rt input_str)) (\<lambda>input_data.
           bind (lift (getitem_str input_data ''question'')) (\<lambda>question.
           bind (lift (getitem_str input_data ''context'')) (\<lambda>context.
           bind (call_pipe rt [] [(''question'', question), (''context'', context)]) (\<lambda>result.
           bind (lift (contains_str ''answer'' result)) (\<lambda>present.
           bind (if present then lift (getitem_str result ''answer'') else ret (PStr [])) (\<lambda>answer.
           ret (add (Py answer) ''data'' Output_new))))))))))"

definition qa_handle :: "('f, 'r) runtime \<Rightarrow> Input \<Rightarrow> ('f Output, 'f, 'r) prog" where
  "qa_handle rt inputs = try_except (qa_try rt inputs) on_exception"

subsection \<open>summarization.py\<close>

text \<open>
  The condition of line 46 is an \<^verbatim>\<open>and\<close> chain, evaluated left to right and stopped at
  the first false operand; only its last operand, \<^verbatim>\<open>'summary_text' in result[0]\<close>, can
  raise, and by then \<open>result\<close> is a list with a first element.
\<close>

definition summary_text_of :: "('f \<Rightarrow> bool) \<Rightarrow> 'f pyval \<Rightarrow> exn + 'f pyval" where
  "summary_text_of nz result =
     (if truthy nz result \<and> isinstance_list result then
        (case result of
           PList (first # _) \<Rightarrow>
             (case contains_str ''summary_text'' first of
                Inl e \<Rightarrow> Inl e
              | Inr present \<Rightarrow> if present then getitem_str first ''summary_text'' else Inr (PStr []))
         | _ \<Rightarrow> Inr (PStr []))
      else Inr (PStr []))"

definition summarization_try :: "'f config \<Rightarrow> ('f, 'r) runtime \<Rightarrow> Input \<Rightarrow> ('f Output, 'f, 'r) prog" where
  "summarization_try cfg rt inputs =
     (if content_size inputs = 0 then warmup
      else bind (lift (get_as_string inputs ''data'')) (\<lambda>input_str.
           bind (torch_manual_seed rt 42) (\<lambda>_.
           bind (call_pipe rt [PStr input_str]
                   [(''min_length'', PInt (min_length cfg)),
                    (''max_new_tokens'', PInt (max_new_tokens cfg)),
                    (''do_sample'', PBool (do_sample cfg)),
                    (''temperature'', PFloat (temperature cfg))]) (\<lambda>result.
           bind (lift (summary_text_of (float_nonzero rt) result)) (\<lambda>summary.
           ret (add (Py summary) ''data'' Output_new))))))"

definition summarization_handle :: "'f config \<Rightarrow> ('f, 'r) runtime \<Rightarrow> Input \<Rightarrow> ('f Output, 'f, 'r) prog" where
  "summarization_handle cfg rt inputs = try_except (summarization_try cfg rt inputs) on_exception"

subsection \<open>text_classification.py\<close>

definition first_if_nested :: "('f \<Rightarrow> bool) \<Rightarrow> 'f pyval \<Rightarrow> exn + 'f pyval" where
  \<comment> \<open>lines 42-43: \<^verbatim>\<open>if result and isinstance(result[0], list): result = result[0]\<close>\<close>
  "first_if_nested nz result =
     (if truthy nz result then
        (case getitem_0 result of
           Inl e \<Rightarrow> Inl e
         | Inr first \<Rightarrow> if isinstance_list first then getitem_0 result else Inr result)
      else Inr result)"

definition text_classification_try :: "('f, 'r) runtime \<Rightarrow> Input \<Rightarrow> ('f Output, 'f, 'r) prog" where
  "text_classification_try rt inputs =
     (if content_size inputs = 0 then warmup
      else bind (lift (get_as_string inputs ''data'')) (\<lambda>input_str.
           bind (torch_manual_seed rt 42) (\<lambda>_.
           bind (call_pipe rt [PStr input_str] []) (\<lambda>result.
           bind (lift (first_if_nested (float_nonzero rt) result)) (\<lambda>result.
           ret (add (Py (PStr (json_dumps (float_repr rt) result))) ''data'' Output_new))))))"

definition text_classification_handle :: "('f, 'r) runtime \<Rightarrow> Input \<Rightarrow> ('f Output, 'f, 'r) prog" where
  "text_classification_handle rt inputs = try_except (text_classification_try rt inputs) on_exception"

subsection \<open>text_to_image.py\<close>

definition first_image :: "image list \<Rightarrow> exn + image" where
  "first_image images =
     (case images of [] \<Rightarrow> Inl (Exn ''IndexError'' ''list index out of range'') | img # _ \<Rightarrow> Inr img)"

definition text_to_image_try :: "('f, 'r) runtime \<Rightarrow> Input \<Rightarrow> ('f Output, 'f, 'r) prog" where
  "text_to_image_try rt inputs =
     (if content_size inputs = 0 then warmup
      else bind (lift (get_as_string inputs ''data'')) (\<lambda>input_str.
           bind (torch_manual_seed rt 42) (\<lambda>_.
           bind (call_sd_pipe rt input_str) (\<lambda>images.
           bind (lift (first_image images)) (\<lambda>img.
           bind (lift (png_save rt img)) (\<lambda>result_bytes.
           ret (add (Raw result_bytes) ''data'' Output_new)))))))"

definition text_to_image_handle :: "('f, 'r) runtime \<Rightarrow> Input \<Rightarrow> ('f Output, 'f, 'r) prog" where
  "text_to_image_handle rt inputs = try_except (text_to_image_try rt inputs) on_exception"

subsection \<open>text_to_speech.py\<close>

definition np_squeeze_tolist :: "('f, 'r) runtime \<Rightarrow> 'f pyval \<Rightarrow> exn + 'f pyval" where
  "np_squeeze_tolist rt v =
     (case asarray_floats v of
        Some a \<Rightarrow> Inr (tolist (squeeze a))
      | None \<Rightarrow> np_squeeze_other rt v)"

definition text_to_speech_try :: "('f, 'r) runtime \<Rightarrow> Input \<Rightarrow> ('f Output, 'f, 'r) prog" where
  "text_to_speech_try rt inputs =
     (if content_size inputs = 0 then warmup
      else bind (lift (get_as_string inputs ''data'')) (\<lambda>input_str.
           bind (torch_manual_seed rt 42) (\<lambda>_.
           bind (call_pipe rt [PStr input_str] []) (\<lambda>result.
           bind (lift (getitem_str result ''audio'')) (\<lambda>audio.
           bind (lift (np_squeeze_tolist rt audio)) (\<lambda>samples.
           bind (lift (setitem_str result ''audio'' samples)) (\<lambda>result.
           ret (add (Py (PStr (json_dumps (float_repr rt) result))) ''data'' Output_new))))))))"

definition text_to_speech_handle :: "('f, 'r) runtime \<Rightarrow> Input \<Rightarrow> ('f Output, 'f, 'r) prog" where
  "text_to_speech_handle rt inputs = try_except (text_to_speech_try rt inputs) on_exception"

subsection \<open>zero_shot_classification.py\<close>

definition zero_shot_try :: "'f config \<Rightarrow> ('f, 'r) runtime \<Rightarrow> Input \<Rightarrow> ('f Output, 'f, 'r) prog" where
  "zero_shot_try cfg rt inputs =
     (if content_size inputs = 0 then warmup
      else bind (lift (get_as_string inputs ''data'')) (\<lambda>input_str.
           bind (lift (json_loads rt input_str)) (\<lambda>input_data.
           bind (lift (getitem_0 input_data)) (\<lambda>text.
           bind (lift (getslice_1 input_data)) (\<lambda>candidate_labels.
           bind (if \<not> truthy (float_nonzero rt) candidate_labels
                 then raise (Exn ''ValueError'' ''At least one candidate label required for zero-shot'')
                 else ret ()) (\<lambda>_.
           bind (torch_manual_seed rt 42) (\<lambda>_.
           bind (call_pipe rt [text]
                   [(''candidate_labels'', candidate_labels),
                    (''multi_label'', PBool (multi_label cfg))]) (\<lambda>result.
           if return_top_label_only cfg
           then bind (lift (getitem_str result ''labels'')) (\<lambda>labels.
                bind (lift (getitem_0 labels)) (\<lambda>top_label.
                ret (add (Py top_label) ''data'' Output_new)))
           else ret (add (Py (PStr (json_dumps (float_repr rt) result))) ''data'' Output_new)))))))))"

definition zero_shot_handle :: "'f config \<Rightarrow> ('f, 'r) runtime \<Rightarrow> Input \<Rightarrow> ('f Output, 'f, 'r) prog" where
  "zero_shot_handle cfg rt inputs = try_except (zero_shot_try cfg rt inputs) on_exception"

subsection \<open>One process serves one task\<close>

datatype task =
    AutomaticSpeechRecognition
  | Chat
  | QuestionAnswering
  | Summarization
  | TextClassification
  | TextToImage
  | TextToSpeech
  | ZeroShotClassification

fun handle :: "task \<Rightarrow> 'f config \<Rightarrow> ('f, 'r) runtime \<Rightarrow> Input \<Rightarrow> ('f Output, 'f, 'r) prog" where
  "handle AutomaticSpeechRecognition cfg rt inputs = asr_handle rt inputs"
| "handle Chat cfg rt inputs = chat_handle cfg rt inputs"
| "handle QuestionAnswering cfg rt inputs = qa_handle rt inputs"
| "handle Summarization cfg rt inputs = summarization_handle cfg rt inputs"
| "handle TextClassification cfg rt inputs = text_classification_handle rt inputs"
| "handle TextToImage cfg rt inputs = text_to_image_handle rt inputs"
| "handle TextToSpeech cfg rt inputs = text_to_speech_handle rt inputs"
| "handle ZeroShotClassification cfg rt inputs = zero_shot_handle cfg rt inputs"


section \<open>Vocabulary of the properties\<close>

text \<open>
  The last entry of the trace says in which generator state and with which arguments the
  pipeline was called; \<open>pipeline_raises\<close> says that this call raised \<open>e\<close>.
\<close>

definition pipeline_raises ::
  "task \<Rightarrow> ('f, 'r) runtime \<Rightarrow> 'r \<times> 'f pyval list \<times> (string \<times> 'f pyval) list \<Rightarrow> exn \<Rightarrow> bool" where
  "pipeline_raises task rt c e =
     (case c of (r, args, kwargs) \<Rightarrow>
        if task = TextToImage
        then (case args of [PStr prompt] \<Rightarrow> fst (sd_pipe rt r prompt) = Inl e | _ \<Rightarrow> False)
        else fst (pipe rt r args kwargs) = Inl e)"


text \<open>The values that are no container: \<^verbatim>\<open>None\<close>, a bool, a number.\<close>

fun is_scalar :: "'f pyval \<Rightarrow> bool" where
  "is_scalar PNone = True"
| "is_scalar (PBool _) = True"
| "is_scalar (PInt _) = True"
| "is_scalar (PFloat _) = True"
| "is_scalar _ = False"

text \<open>The two kinds of answer: a \<^verbatim>\<open>data\<close> part holding a value, or holding the error payload of a message.\<close>

definition answered :: "'f pyval \<Rightarrow> exn + 'f Output" where
  "answered v = Inr (Output [(''data'', Py v)])"

definition refused :: "string \<Rightarrow> exn + 'f Output" where
  "refused m = Inr (Output [(''data'', Py (PStr (error_payload m)))])"

definition not_iterable :: "'f pyval \<Rightarrow> string" where
  "not_iterable v = ''argument of type '' @ quoted (type_name v) @ '' is not iterable''"

subsection \<open>Test doubles for the examples\<close>

text \<open>
  In the examples a float is written as its repr, the generator state is a number
  (\<^verbatim>\<open>manual_seed(42)\<close> gives 42, a pipeline call advances it by one), the pipeline
  has one fixed outcome, and \<^verbatim>\<open>json.loads\<close> knows one document: the text
  \<^verbatim>\<open>json.dumps\<close> writes for a given value.
\<close>

definition loads_only :: "string pyval \<Rightarrow> string \<Rightarrow> exn + string pyval" where
  "loads_only v text =
     (if text = json_dumps id v then Inr v
      else Inl (Exn ''JSONDecodeError'' ''Expecting value: line 1 column 1 (char 0)''))"

definition image_outcome :: "exn + string pyval \<Rightarrow> exn + image list" where
  "image_outcome outcome = (case outcome of Inl e \<Rightarrow> Inl e | Inr _ \<Rightarrow> Inr [Image 0])"

definition example_rt :: "string pyval \<Rightarrow> exn + string pyval \<Rightarrow> (string, nat) runtime" where
  "example_rt document outcome =
     \<lparr> json_loads = loads_only document,
       float_repr = id,
       float_nonzero = (\<lambda>x. x \<noteq> ''0.0'' \<and> x \<noteq> ''-0.0''),
       np_array_float32 = Inr,
       np_squeeze_other = Inr,
       png_save = (\<lambda>img. Inr [137, 80, 78, 71]),
       manual_seed = nat,
       pipe = (\<lambda>r args kwargs. (outcome, Suc r)),
       sd_pipe = (\<lambda>r prompt. (image_outcome outcome, Suc r)) \<rparr>"

definition example_cfg :: "bool \<Rightarrow> string config" where
  "example_cfg top_only =
     \<lparr> max_new_tokens = 256, do_sample = False, temperature = ''1.000000'', min_length = 30,
       multi_label = False, return_top_label_only = top_only \<rparr>"

definition request :: "string \<Rightarrow> Input" where
  "request body =
     \<lparr> content_size = 1,
       get_as_string = (\<lambda>key. if key = ''data'' then Inr body else Inl (Exn ''KeyError'' (quoted key))) \<rparr>"

definition warmup_request :: Input where
  "warmup_request = \<lparr> content_size = 0, get_as_string = (\<lambda>key. Inl (Exn ''KeyError'' (quoted key))) \<rparr>"

definition out_of_memory :: exn where
  "out_of_memory = Exn ''RuntimeError'' ''CUDA out of memory''"

definition not_implemented :: exn where
  \<comment> \<open>\<^verbatim>\<open>raise NotImplementedError\<close>: an exception without arguments prints as the empty string\<close>
  "not_implemented = Exn ''NotImplementedError'' []"

definition messages :: "string pyval" where
  "messages = PList [PDict [(''role'', PStr ''user''), (''content'', PStr ''hi'')]]"

definition nested_audio :: "string pyval" where
  "nested_audio = PList [PList [PFloat ''0.1'', PFloat ''0.2''], PList [PFloat ''0.3'', PFloat ''0.4'']]"

definition flat_audio :: "string pyval" where
  "flat_audio = PList [PFloat ''0.1'', PFloat ''0.2'', PFloat ''0.3'', PFloat ''0.4'']"

definition label_scores :: "string pyval" where
  "label_scores =
     PList [PDict [(''label'', PStr ''A''), (''score'', PFloat ''0.9'')],
            PDict [(''label'', PStr ''B''), (''score'', PFloat ''0.1'')]]"

definition zero_shot_result :: "string pyval" where
  "zero_shot_result =
     PDict [(''labels'', PList [PStr ''label2'', PStr ''label1'']),
            (''scores'', PList [PFloat ''0.7'', PFloat ''0.3''])]"

definition qa_request :: "string pyval" where
  "qa_request = PDict [(''question'', PStr ''q''), (''context'', PStr ''c'')]"

text \<open>A pipeline that returns the number it draws from the generator, in a list.\<close>

definition dice_rt :: "string pyval \<Rightarrow> (string, nat) runtime" where
  "dice_rt document =
     (example_rt document (Inr PNone))\<lparr>pipe := (\<lambda>r args kwargs. (Inr (PList [PInt (int r)]), Suc r))\<rparr>"

definition fresh :: "(string, nat) world" where
  "fresh = \<lparr> rng = 0, calls = [], log = [] \<rparr>"


section \<open>Unfolding and evaluation\<close>

lemmas prog_defs = ret_def raise_def lift_def bind_def try_except_def logging_info_def
  logging_error_def torch_manual_seed_def call_pipe_def call_sd_pipe_def warmup_def
  on_exception_def Output_new_def add_def

lemmas handler_defs = asr_handle_def asr_try_def chat_handle_def chat_try_def qa_handle_def
  qa_try_def summarization_handle_def summarization_try_def text_classification_handle_def
  text_classification_try_def text_to_image_handle_def text_to_image_try_def
  text_to_speech_handle_def text_to_speech_try_def zero_shot_handle_def zero_shot_try_def

lemmas json_defs = json_string_def json_escape_char_def dq_def backslash_def sq_def quoted_def

lemmas example_defs = example_rt_def loads_only_def image_outcome_def example_cfg_def request_def
  warmup_request_def fresh_def out_of_memory_def not_implemented_def messages_def nested_audio_def
  flat_audio_def label_scores_def zero_shot_result_def dice_rt_def qa_request_def

lemma error_payload_text:
  "error_payload m = ''{'' @ json_string ''error'' @ '': '' @ json_string m @ ''}''"
  by (simp add: error_payload_def)

lemma json_escape_char_nonempty: "json_escape_char c \<noteq> []"
  by (simp add: json_escape_char_def)

lemma json_string_empty_iff: "json_string m = json_string [] \<longleftrightarrow> m = []"
  by (cases m) (simp_all add: json_string_def json_escape_char_nonempty)

text \<open>Only the empty message gives the payload with the empty \<^verbatim>\<open>error\<close> value.\<close>

lemma error_payload_empty_iff: "error_payload [] = error_payload m \<longleftrightarrow> m = []"
  using json_string_empty_iff [of m] by (auto simp: error_payload_text)

lemma key_in_dict_iff: "k \<in> set (map fst kvs) \<longleftrightarrow> map_of kvs k \<noteq> None"
  by (simp add: map_of_eq_None_iff)

section \<open>Warmup\<close>

text \<open>
  C1. For every task and every configuration, a request whose content size is 0 is
  answered with the empty envelope, and nothing else happens but the one call of
  \<^verbatim>\<open>logging.info\<close>: the trace of pipeline calls and the generator state are those the
  request found, so the pipeline is not invoked.
\<close>

theorem warmup_returns_empty:
  "content_size inputs = 0 \<Longrightarrow>
   handle task cfg rt inputs s =
     (Inr (Output []),
      s\<lparr>log := log s @ [(''INFO'', ''Handling warmup call - returning empty output'')]\<rparr>)"
  by (cases task) (simp_all add: handler_defs prog_defs)

theorem warmup_returns_empty_witness:
  "content_size warmup_request = 0
   \<and> handle ZeroShotClassification (example_cfg True) (example_rt PNone (Inr PNone)) warmup_request fresh =
       (Inr (Output []),
        fresh\<lparr>log := log fresh @ [(''INFO'', ''Handling warmup call - returning empty output'')]\<rparr>)"
proof -
  have size0: "content_size warmup_request = 0"
    by (simp add: warmup_request_def)
  show ?thesis
    by (intro conjI) (rule size0, rule warmup_returns_empty [OF size0])
qed


section \<open>Exceptions of the pipeline\<close>

text \<open>
  C2, as the claim states it, asks for a non-empty \<^verbatim>\<open>error\<close> value whenever the pipeline
  call raises. The value is \<^verbatim>\<open>str(e)\<close>, and that is empty for an exception raised
  without arguments: the text classification pipeline raising \<^verbatim>\<open>NotImplementedError\<close> on
  the request \<^verbatim>\<open>hello\<close> is answered with \<^verbatim>\<open>{"error": ""}\<close>.
\<close>

theorem empty_error_message_counterexample:
  "calls (snd (handle TextClassification (example_cfg True) (example_rt PNone (Inl not_implemented))
                 (request ''hello'') fresh))
     = calls fresh @ [(42, [PStr ''hello''], [])]
   \<and> pipeline_raises TextClassification (example_rt PNone (Inl not_implemented))
        (42, [PStr ''hello''], []) not_implemented
   \<and> fst (handle TextClassification (example_cfg True) (example_rt PNone (Inl not_implemented))
             (request ''hello'') fresh)
     = Inr (Output [(''data'', Py (PStr (error_payload [])))])
   \<and> error_payload [] = ''{'' @ [dq] @ ''error'' @ [dq] @ '': '' @ [dq, dq] @ ''}''"
  by (simp add: handler_defs prog_defs pipeline_raises_def example_defs error_payload_text json_defs)

text \<open>
  C2, amended. For every task: if a call of \<^verbatim>\<open>handle\<close> invoked the pipeline (the trace
  grew by the call \<open>c\<close>) and that call raised \<open>e\<close>, then \<^verbatim>\<open>handle\<close> returns, and the
  response has the one part \<^verbatim>\<open>data\<close> holding \<^verbatim>\<open>json.dumps({"error": str(e)})\<close>. The
  \<^verbatim>\<open>error\<close> value is \<^verbatim>\<open>str(e)\<close>, empty exactly when that is.
\<close>

theorem pipeline_exception_reported:
  "calls (snd (handle task cfg rt inputs s)) = calls s @ [c] \<Longrightarrow>
   pipeline_raises task rt c e \<Longrightarrow>
   fst (handle task cfg rt inputs s) =
     Inr (Output [(''data'', Py (PStr (error_payload (exn_str e))))])"
  by (cases task)
     (auto simp: handler_defs prog_defs pipeline_raises_def split: if_splits sum.splits prod.splits)

theorem pipeline_exception_reported_witness:
  "calls (snd (handle Chat (example_cfg True) (example_rt messages (Inl out_of_memory))
                 (request (json_dumps id messages)) fresh))
     = calls fresh @ [(42, [messages],
         [(''max_new_tokens'', PInt 256), (''do_sample'', PBool False), (''temperature'', PFloat ''1.000000'')])]
   \<and> pipeline_raises Chat (example_rt messages (Inl out_of_memory))
        (42, [messages],
         [(''max_new_tokens'', PInt 256), (''do_sample'', PBool False), (''temperature'', PFloat ''1.000000'')])
        out_of_memory
   \<and> fst (handle Chat (example_cfg True) (example_rt messages (Inl out_of_memory))
             (request (json_dumps id messages)) fresh)
     = Inr (Output [(''data'', Py (PStr (error_payload ''CUDA out of memory'')))])"
proof -
  have invoked:
    "calls (snd (handle Chat (example_cfg True) (example_rt messages (Inl out_of_memory))
                   (request (json_dumps id messages)) fresh))
       = calls fresh @ [(42, [messages],
           [(''max_new_tokens'', PInt 256), (''do_sample'', PBool False), (''temperature'', PFloat ''1.000000'')])]"
    by (simp add: chat_handle_def chat_try_def prog_defs example_rt_def loads_only_def
          example_cfg_def request_def fresh_def)
  have raised:
    "pipeline_raises Chat (example_rt messages (Inl out_of_memory))
       (42, [messages],
        [(''max_new_tokens'', PInt 256), (''do_sample'', PBool False), (''temperature'', PFloat ''1.000000'')])
       out_of_memory"
    by (simp add: pipeline_raises_def example_rt_def)
  from pipeline_exception_reported [OF invoked raised] invoked raised show ?thesis
    by (simp add: out_of_memory_def)
qed

section \<open>Text to speech: the audio array\<close>

text \<open>
  C3. The comment of line 44 says "Squeeze to 1D", and \<^verbatim>\<open>np.squeeze\<close> only removes
  axes of length one. For the pipeline result \<^verbatim>\<open>{"audio": [[0.1, 0.2], [0.3, 0.4]]}\<close>,
  of shape (2, 2), nothing is removed: the response carries the nested list, which is
  not the text of the flat list \<^verbatim>\<open>[0.1, 0.2, 0.3, 0.4]\<close>.
\<close>

theorem nested_audio_stays_nested:
  "fst (text_to_speech_handle (example_rt PNone (Inr (PDict [(''audio'', nested_audio)])))
          (request ''hello'') fresh)
     = Inr (Output [(''data'', Py (PStr (json_dumps id (PDict [(''audio'', nested_audio)]))))])
   \<and> json_dumps id (PDict [(''audio'', nested_audio)]) \<noteq> json_dumps id (PDict [(''audio'', flat_audio)])"
  by (simp add: text_to_speech_handle_def text_to_speech_try_def prog_defs example_defs
        np_squeeze_tolist_def asarray_floats_def squeeze_def tolist_def json_defs)

text \<open>
  What the squeeze does reach: an array of one row (shape (1, N), one channel) becomes the
  flat list of its samples, and so does the \<^verbatim>\<open>audio\<close> field of the response. An array
  of two rows of two samples is left as it is, whatever the four samples.
\<close>

lemma floats_of_map: "floats_of (map PFloat xs) = Some xs"
  by (induction xs) simp_all

lemma leaves_floats: "concat (map leaves (map PFloat xs)) = map PFloat xs"
  by (induction xs) simp_all

lemma dims_row: "dims (PList (map PFloat xs)) = [length xs]"
  by (cases xs) simp_all

lemma has_shape_row: "has_shape [length xs] (PList (map PFloat xs))"
  by (simp add: list_all_iff)

lemma nest_row: "nest [length xs] xs = PList (map PFloat xs)"
proof -
  have "take (Suc 0) (drop i xs) = [xs ! i]" if "i < length xs" for i
    using that by (simp add: take_Suc_conv_app_nth)
  then have "map (\<lambda>i. nest [] (take (Suc 0) (drop i xs))) [0..<length xs]
      = map (\<lambda>i. PFloat (xs ! i)) [0..<length xs]"
    by simp
  also have "\<dots> = map PFloat (map (\<lambda>i. xs ! i) [0..<length xs])"
    by simp
  also have "\<dots> = map PFloat xs"
    by (simp only: map_nth)
  finally show ?thesis by simp
qed

lemma asarray_single_row:
  "asarray_floats (PList [PList (map PFloat xs)]) = Some (NDArray [1, length xs] xs)"
proof -
  have d: "dims (PList [PList (map PFloat xs)]) = [1, length xs]"
    using dims_row [of xs] by simp
  have h: "has_shape [1, length xs] (PList [PList (map PFloat xs)])"
    using has_shape_row [of xs] by simp
  have l: "leaves (PList [PList (map PFloat xs)]) = map PFloat xs"
    using leaves_floats [of xs] by simp
  show ?thesis
    unfolding asarray_floats_def d l floats_of_map using h by simp
qed

lemma squeeze_single_row:
  "length xs \<noteq> 1 \<Longrightarrow>
   np_squeeze_tolist rt (PList [PList (map PFloat xs)]) = Inr (PList (map PFloat xs))"
  unfolding np_squeeze_tolist_def asarray_single_row
  by (simp add: squeeze_def tolist_def nest_row del: nest.simps)

lemma squeeze_keeps_two_rows:
  "np_squeeze_tolist rt (PList [PList [PFloat a, PFloat b], PList [PFloat c, PFloat d]])
     = Inr (PList [PList [PFloat a, PFloat b], PList [PFloat c, PFloat d]])"
  by (simp add: np_squeeze_tolist_def asarray_floats_def squeeze_def tolist_def)

lemma text_to_speech_single_channel:
  assumes "content_size inputs \<noteq> 0"
    and "get_as_string inputs ''data'' = Inr input_str"
    and "pipe rt (manual_seed rt 42) [PStr input_str] [] = (Inr (PDict result), r')"
    and "map_of result ''audio'' = Some (PList [PList (map PFloat xs)])"
    and "length xs \<noteq> 1"
  shows "fst (text_to_speech_handle rt inputs s) =
           Inr (Output [(''data'', Py (PStr (json_dumps (float_repr rt)
             (PDict (dict_update ''audio'' (PList (map PFloat xs)) result)))))])"
  using assms
  by (simp add: text_to_speech_handle_def text_to_speech_try_def prog_defs squeeze_single_row)

section \<open>Zero-shot classification\<close>

text \<open>
  C4, as the claim states it, has the validation message in the answer to every array of
  fewer than two elements. Line 38 reads \<^verbatim>\<open>input_data[0]\<close> before line 40 tests the
  labels, so the empty array \<^verbatim>\<open>[]\<close> is answered with the message of the
  \<^verbatim>\<open>IndexError\<close>, \<^verbatim>\<open>list index out of range\<close>, and not with the validation message.
\<close>

theorem empty_array_counterexample:
  "content_size (request (json_dumps id (PList []))) \<noteq> 0
   \<and> json_loads (example_rt (PList []) (Inr zero_shot_result)) (json_dumps id (PList []))
       = Inr (PList [])
   \<and> length ([] :: string pyval list) < 2
   \<and> fst (zero_shot_handle (example_cfg True) (example_rt (PList []) (Inr zero_shot_result))
            (request (json_dumps id (PList []))) fresh)
       = refused ''list index out of range''
   \<and> (refused ''list index out of range'' :: exn + string Output)
       \<noteq> refused ''At least one candidate label required for zero-shot''"
  by (simp add: zero_shot_handle_def zero_shot_try_def prog_defs example_defs refused_def
        error_payload_text json_defs)

text \<open>
  C4, amended. A request whose \<^verbatim>\<open>data\<close> part decodes to a JSON array of fewer than two
  elements is answered with an error payload, and the pipeline is not invoked. With one
  element (a text and no label) the message is the validation message of line 41,
  \<^verbatim>\<open>At least one candidate label required for zero-shot\<close>; with none it is the message
  of the \<^verbatim>\<open>IndexError\<close> of line 38, \<^verbatim>\<open>list index out of range\<close>.
\<close>

theorem zero_shot_requires_candidate_label:
  assumes "content_size inputs \<noteq> 0"
    and "get_as_string inputs ''data'' = Inr input_str"
    and "json_loads rt input_str = Inr (PList xs)"
    and "length xs < 2"
  shows "fst (zero_shot_handle cfg rt inputs s) =
           Inr (Output [(''data'', Py (PStr (error_payload
             (if xs = [] then ''list index out of range''
              else ''At least one candidate label required for zero-shot''))))])
         \<and> calls (snd (zero_shot_handle cfg rt inputs s)) = calls s"
proof (cases xs)
  case Nil
  with assms show ?thesis
    by (simp add: zero_shot_handle_def zero_shot_try_def prog_defs)
next
  case (Cons x ys)
  with assms have "ys = []" by simp
  with Cons assms show ?thesis
    by (simp add: zero_shot_handle_def zero_shot_try_def prog_defs)
qed

text \<open>The requests \<^verbatim>\<open>["text"]\<close> and \<^verbatim>\<open>[]\<close>.\<close>

theorem zero_shot_requires_candidate_label_witness:
  "content_size (request (json_dumps id (PList [PStr ''text'']))) \<noteq> 0
   \<and> get_as_string (request (json_dumps id (PList [PStr ''text'']))) ''data''
       = Inr (json_dumps id (PList [PStr ''text'']))
   \<and> json_loads (example_rt (PList [PStr ''text'']) (Inr zero_shot_result))
       (json_dumps id (PList [PStr ''text''])) = Inr (PList [PStr ''text''])
   \<and> length [PStr ''text'' :: string pyval] < 2
   \<and> fst (zero_shot_handle (example_cfg True) (example_rt (PList [PStr ''text'']) (Inr zero_shot_result))
             (request (json_dumps id (PList [PStr ''text'']))) fresh)
       = Inr (Output [(''data'', Py (PStr (error_payload
               ''At least one candidate label required for zero-shot'')))])
   \<and> calls (snd (zero_shot_handle (example_cfg True) (example_rt (PList [PStr ''text'']) (Inr zero_shot_result))
             (request (json_dumps id (PList [PStr ''text'']))) fresh)) = calls fresh
   \<and> fst (zero_shot_handle (example_cfg True) (example_rt (PList []) (Inr zero_shot_result))
             (request (json_dumps id (PList []))) fresh)
       = Inr (Output [(''data'', Py (PStr (error_payload ''list index out of range'')))])
   \<and> calls (snd (zero_shot_handle (example_cfg True) (example_rt (PList []) (Inr zero_shot_result))
             (request (json_dumps id (PList []))) fresh)) = calls fresh"
proof -
  have nonempty: "content_size (request body) \<noteq> 0" for body
    by (simp add: request_def)
  have body: "get_as_string (request body) ''data'' = Inr body" for body
    by (simp add: request_def)
  have decoded: "json_loads (example_rt document (Inr zero_shot_result)) (json_dumps id document)
      = Inr document" for document
    by (simp add: example_rt_def loads_only_def)
  have short: "length [PStr ''text'' :: string pyval] < 2" and none: "length ([] :: string pyval list) < 2"
    by simp_all
  note one = zero_shot_requires_candidate_label
      [OF nonempty body decoded short, of "example_cfg True" fresh]
  note zero = zero_shot_requires_candidate_label
      [OF nonempty body decoded none, of "example_cfg True" fresh]
  show ?thesis
  proof (intro conjI)
    show "fst (zero_shot_handle (example_cfg True) (example_rt (PList [PStr ''text'']) (Inr zero_shot_result))
             (request (json_dumps id (PList [PStr ''text'']))) fresh)
       = Inr (Output [(''data'', Py (PStr (error_payload
               ''At least one candidate label required for zero-shot'')))])"
      using one by simp
    show "fst (zero_shot_handle (example_cfg True) (example_rt (PList []) (Inr zero_shot_result))
             (request (json_dumps id (PList []))) fresh)
       = Inr (Output [(''data'', Py (PStr (error_payload ''list index out of range'')))])"
      using zero by simp
  qed (rule nonempty body decoded short one [THEN conjunct2] zero [THEN conjunct2])+
qed

text \<open>
  C5. A request with a text and at least one candidate label, whose pipeline call returns
  \<open>result\<close>. With \<^verbatim>\<open>return_top_label_only\<close> true and a \<^verbatim>\<open>labels\<close> list in the result,
  the \<^verbatim>\<open>data\<close> part is the first element of that list itself, not its JSON text (the
  handler does not look at the scores: it relies on the pipeline's order). With
  \<^verbatim>\<open>return_top_label_only\<close> false the \<^verbatim>\<open>data\<close> part is \<^verbatim>\<open>json.dumps(result)\<close>.
\<close>

theorem zero_shot_top_label:
  assumes "content_size inputs \<noteq> 0"
    and "get_as_string inputs ''data'' = Inr input_str"
    and "json_loads rt input_str = Inr (PList (text # label # labels))"
    and "pipe rt (manual_seed rt 42) [text]
           [(''candidate_labels'', PList (label # labels)), (''multi_label'', PBool (multi_label cfg))]
         = (Inr result, r')"
  shows "(return_top_label_only cfg \<longrightarrow> result = PDict kvs \<longrightarrow>
            map_of kvs ''labels'' = Some (PList (best # rest)) \<longrightarrow>
            fst (zero_shot_handle cfg rt inputs s) = Inr (Output [(''data'', Py best)]))
       \<and> (\<not> return_top_label_only cfg \<longrightarrow>
            fst (zero_shot_handle cfg rt inputs s) =
              Inr (Output [(''data'', Py (PStr (json_dumps (float_repr rt) result)))]))"
  using assms by (simp add: zero_shot_handle_def zero_shot_try_def prog_defs)

text \<open>
  The example of the claim: the request \<^verbatim>\<open>["text", "label1", "label2"]\<close> and the result
  \<^verbatim>\<open>{"labels": ["label2", "label1"], "scores": [0.7, 0.3]}\<close> give the plain string
  \<^verbatim>\<open>label2\<close>, and the JSON text of the result when only the configuration differs.
\<close>

theorem zero_shot_top_label_witness:
  "content_size (request (json_dumps id (PList [PStr ''text'', PStr ''label1'', PStr ''label2'']))) \<noteq> 0
   \<and> json_loads (example_rt (PList [PStr ''text'', PStr ''label1'', PStr ''label2'']) (Inr zero_shot_result))
        (json_dumps id (PList [PStr ''text'', PStr ''label1'', PStr ''label2'']))
       = Inr (PList [PStr ''text'', PStr ''label1'', PStr ''label2''])
   \<and> map_of [(''labels'', PList [PStr ''label2'', PStr ''label1'']),
              (''scores'', PList [PFloat ''0.7'', PFloat ''0.3''])] ''labels''
       = Some (PList [PStr ''label2'', PStr ''label1''])
   \<and> fst (zero_shot_handle (example_cfg True)
             (example_rt (PList [PStr ''text'', PStr ''label1'', PStr ''label2'']) (Inr zero_shot_result))
             (request (json_dumps id (PList [PStr ''text'', PStr ''label1'', PStr ''label2'']))) fresh)
       = Inr (Output [(''data'', Py (PStr ''label2''))])
   \<and> fst (zero_shot_handle (example_cfg False)
             (example_rt (PList [PStr ''text'', PStr ''label1'', PStr ''label2'']) (Inr zero_shot_result))
             (request (json_dumps id (PList [PStr ''text'', PStr ''label1'', PStr ''label2'']))) fresh)
       = Inr (Output [(''data'', Py (PStr (json_dumps id zero_shot_result)))])"
proof -
  let ?doc = "PList [PStr ''text'', PStr ''label1'', PStr ''label2''] :: string pyval"
  let ?rt = "example_rt ?doc (Inr zero_shot_result)"
  let ?req = "request (json_dumps id ?doc)"
  have nonempty: "content_size ?req \<noteq> 0"
    by (simp add: request_def)
  have body: "get_as_string ?req ''data'' = Inr (json_dumps id ?doc)"
    by (simp add: request_def)
  have decoded: "json_loads ?rt (json_dumps id ?doc) = Inr ?doc"
    by (simp add: example_rt_def loads_only_def)
  have returned: "pipe ?rt (manual_seed ?rt 42) [PStr ''text'']
      [(''candidate_labels'', PList [PStr ''label1'', PStr ''label2'']),
       (''multi_label'', PBool (multi_label (example_cfg b)))]
      = (Inr zero_shot_result, 43)" for b
    by (simp add: example_rt_def)
  have labels: "map_of [(''labels'', PList [PStr ''label2'', PStr ''label1'']),
              (''scores'', PList [PFloat ''0.7'', PFloat ''0.3''])] ''labels''
       = Some (PList [PStr ''label2'', PStr ''label1''])"
    by simp
  have top_only: "return_top_label_only (example_cfg True)" and full: "\<not> return_top_label_only (example_cfg False)"
    by (simp_all add: example_cfg_def)
  note both = zero_shot_top_label [OF nonempty body decoded returned]
  from both [of True _ _ _ fresh, THEN conjunct1, rule_format, OF top_only zero_shot_result_def labels]
    both [of False _ _ _ fresh, THEN conjunct2, rule_format, OF full]
    nonempty decoded labels
  show ?thesis
    by (simp add: example_rt_def)
qed

section \<open>Summarization\<close>

text \<open>
  C6, as the claim states it, has the empty string for every result whose first element
  lacks the field \<^verbatim>\<open>summary_text\<close>. Line 46 tests \<^verbatim>\<open>'summary_text' in result[0]\<close>, and
  \<^verbatim>\<open>in\<close> raises on a first element that is no container: the result \<^verbatim>\<open>[None]\<close> is
  answered with the error payload of a \<^verbatim>\<open>TypeError\<close>, not with the empty string.
\<close>

theorem none_element_counterexample:
  "fst (summarization_handle (example_cfg True) (example_rt PNone (Inr (PList [PNone])))
          (request ''a long text'') fresh)
     = refused (''argument of type '' @ quoted ''NoneType'' @ '' is not iterable'')
   \<and> (refused (''argument of type '' @ quoted ''NoneType'' @ '' is not iterable'') :: exn + string Output)
       \<noteq> answered (PStr [])"
  by (simp add: summarization_handle_def summarization_try_def prog_defs example_defs
        summary_text_of_def refused_def answered_def error_payload_text)

text \<open>
  C6, amended. A request whose pipeline call returns \<open>result\<close>, whatever value that is.
  \<^item> The empty list, or a result that is not a list: the \<^verbatim>\<open>data\<close> part is the empty string.
  \<^item> A list whose first element is a dict: the \<^verbatim>\<open>data\<close> part is the value under
    \<^verbatim>\<open>summary_text\<close>, or the empty string when the dict has no such key.
  \<^item> A list whose first element is a list or a string: the empty string when
    \<^verbatim>\<open>'summary_text'\<close> is not an element of that list (not a substring of that string);
    when it is, \<^verbatim>\<open>result[0]['summary_text']\<close> raises and the \<^verbatim>\<open>data\<close> part is the error
    payload of that \<^verbatim>\<open>TypeError\<close>.
  \<^item> A list whose first element is \<^verbatim>\<open>None\<close>, a bool or a number: the membership test
    raises and the \<^verbatim>\<open>data\<close> part is the error payload of that \<^verbatim>\<open>TypeError\<close>.
\<close>

theorem summarization_summary_text:
  assumes "content_size inputs \<noteq> 0"
    and "get_as_string inputs ''data'' = Inr input_str"
    and "pipe rt (manual_seed rt 42) [PStr input_str]
           [(''min_length'', PInt (min_length cfg)), (''max_new_tokens'', PInt (max_new_tokens cfg)),
            (''do_sample'', PBool (do_sample cfg)), (''temperature'', PFloat (temperature cfg))]
         = (Inr result, r')"
  shows "(result = PList [] \<or> \<not> isinstance_list result \<longrightarrow>
            fst (summarization_handle cfg rt inputs s) = answered (PStr []))
       \<and> (\<forall>first rest. result = PList (first # rest) \<longrightarrow>
            (\<forall>kvs. first = PDict kvs \<longrightarrow>
               fst (summarization_handle cfg rt inputs s) =
                 answered (case map_of kvs ''summary_text'' of None \<Rightarrow> PStr [] | Some v \<Rightarrow> v))
          \<and> (\<forall>items. first = PList items \<longrightarrow>
               fst (summarization_handle cfg rt inputs s) =
                 (if PStr ''summary_text'' \<in> set items
                  then refused ''list indices must be integers or slices, not str''
                  else answered (PStr [])))
          \<and> (\<forall>t. first = PStr t \<longrightarrow>
               fst (summarization_handle cfg rt inputs s) =
                 (if is_substring ''summary_text'' t
                  then refused (''string indices must be integers, not '' @ quoted ''str'')
                  else answered (PStr [])))
          \<and> (is_scalar first \<longrightarrow>
               fst (summarization_handle cfg rt inputs s) = refused (not_iterable first)))"
proof -
  have run: "fst (summarization_handle cfg rt inputs s) =
      (case summary_text_of (float_nonzero rt) result of
         Inl e \<Rightarrow> refused (exn_str e)
       | Inr v \<Rightarrow> answered v)"
    using assms
    by (simp add: summarization_handle_def summarization_try_def prog_defs answered_def refused_def
          split: sum.splits)
  have empty: "result = PList [] \<or> \<not> isinstance_list result \<Longrightarrow>
      summary_text_of (float_nonzero rt) result = Inr (PStr [])"
    by (auto simp: summary_text_of_def split: pyval.splits list.splits)
  have first: "summary_text_of (float_nonzero rt) (PList (first # rest)) =
      (case contains_str ''summary_text'' first of
         Inl e \<Rightarrow> Inl e
       | Inr present \<Rightarrow> if present then getitem_str first ''summary_text'' else Inr (PStr []))"
    for first rest
    by (simp add: summary_text_of_def)
  show ?thesis
  proof (intro conjI allI impI)
    assume "result = PList [] \<or> \<not> isinstance_list result"
    then show "fst (summarization_handle cfg rt inputs s) = answered (PStr [])"
      unfolding run using empty by simp
  next
    fix first rest kvs
    assume "result = PList (first # rest)" "first = PDict kvs"
    then show "fst (summarization_handle cfg rt inputs s) =
        answered (case map_of kvs ''summary_text'' of None \<Rightarrow> PStr [] | Some v \<Rightarrow> v)"
      by (auto simp: run first key_in_dict_iff simp del: set_map split: option.splits)
  next
    fix first rest items
    assume "result = PList (first # rest)" "first = PList items"
    then show "fst (summarization_handle cfg rt inputs s) =
        (if PStr ''summary_text'' \<in> set items
         then refused ''list indices must be integers or slices, not str''
         else answered (PStr []))"
      by (simp add: run first)
  next
    fix first rest t
    assume "result = PList (first # rest)" "first = PStr t"
    then show "fst (summarization_handle cfg rt inputs s) =
        (if is_substring ''summary_text'' t
         then refused (''string indices must be integers, not '' @ quoted ''str'')
         else answered (PStr []))"
      by (simp add: run first)
  next
    fix first rest
    assume "result = PList (first # rest)" "is_scalar first"
    then show "fst (summarization_handle cfg rt inputs s) = refused (not_iterable first)"
      by (cases first) (simp_all add: run first not_iterable_def)
  qed
qed

text \<open>
  The examples of the spec: \<^verbatim>\<open>[]\<close> gives the empty string and
  \<^verbatim>\<open>[{"summary_text": "x"}]\<close> gives \<^verbatim>\<open>x\<close>; and \<^verbatim>\<open>[5]\<close> gives an error payload.
\<close>

theorem summarization_summary_text_witness:
  "content_size (request ''a long text'') \<noteq> 0
   \<and> get_as_string (request ''a long text'') ''data'' = Inr ''a long text''
   \<and> fst (summarization_handle (example_cfg True) (example_rt PNone (Inr (PList [])))
            (request ''a long text'') fresh)
       = Inr (Output [(''data'', Py (PStr []))])
   \<and> fst (summarization_handle (example_cfg True)
            (example_rt PNone (Inr (PList [PDict [(''summary_text'', PStr ''x'')]])))
            (request ''a long text'') fresh)
       = Inr (Output [(''data'', Py (PStr ''x''))])
   \<and> fst (summarization_handle (example_cfg True) (example_rt PNone (Inr (PList [PInt 5])))
            (request ''a long text'') fresh)
       = Inr (Output [(''data'', Py (PStr (error_payload
            (''argument of type '' @ quoted ''int'' @ '' is not iterable''))))])"
proof -
  have nonempty: "content_size (request ''a long text'') \<noteq> 0"
    by (simp add: request_def)
  have body: "get_as_string (request ''a long text'') ''data'' = Inr ''a long text''"
    by (simp add: request_def)
  have returned: "pipe (example_rt PNone (Inr result)) (manual_seed (example_rt PNone (Inr result)) 42)
      [PStr ''a long text'']
      [(''min_length'', PInt (min_length (example_cfg True))),
       (''max_new_tokens'', PInt (max_new_tokens (example_cfg True))),
       (''do_sample'', PBool (do_sample (example_cfg True))),
       (''temperature'', PFloat (temperature (example_cfg True)))]
      = (Inr result, 43)" for result
    by (simp add: example_rt_def)
  note cases = summarization_summary_text [OF nonempty body returned]
  have empty: "fst (summarization_handle (example_cfg True) (example_rt PNone (Inr (PList [])))
            (request ''a long text'') fresh) = Inr (Output [(''data'', Py (PStr []))])"
    using cases [of "PList []" fresh, THEN conjunct1] by (simp add: answered_def)
  have summary: "fst (summarization_handle (example_cfg True)
            (example_rt PNone (Inr (PList [PDict [(''summary_text'', PStr ''x'')]])))
            (request ''a long text'') fresh) = Inr (Output [(''data'', Py (PStr ''x''))])"
    using cases [of "PList [PDict [(''summary_text'', PStr ''x'')]]" fresh, THEN conjunct2]
    by (simp add: answered_def)
  have number: "fst (summarization_handle (example_cfg True) (example_rt PNone (Inr (PList [PInt 5])))
            (request ''a long text'') fresh)
       = Inr (Output [(''data'', Py (PStr (error_payload
            (''argument of type '' @ quoted ''int'' @ '' is not iterable''))))])"
    using cases [of "PList [PInt 5]" fresh, THEN conjunct2]
    by (simp add: refused_def not_iterable_def)
  from nonempty body empty summary number show ?thesis
    by simp
qed

section \<open>Text classification\<close>

text \<open>
  C7, as the claim states it, has every result that is not a list of lists serialized
  unchanged. Lines 42-43 read \<^verbatim>\<open>result[0]\<close> of every result that is true, and a dict
  has no key 0: the result \<^verbatim>\<open>{"label": "A", "score": 0.9}\<close> is answered with the error
  payload of \<^verbatim>\<open>KeyError(0)\<close>, not with its JSON text.
\<close>

theorem dict_result_counterexample:
  "fst (text_classification_handle
          (example_rt PNone (Inr (PDict [(''label'', PStr ''A''), (''score'', PFloat ''0.9'')])))
          (request ''hello'') fresh)
     = Inr (Output [(''data'', Py (PStr (error_payload ''0'')))])
   \<and> error_payload ''0'' \<noteq> json_dumps id (PDict [(''label'', PStr ''A''), (''score'', PFloat ''0.9'')])"
  by (simp add: text_classification_handle_def text_classification_try_def prog_defs example_defs
        first_if_nested_def error_payload_text json_defs)

text \<open>
  C7, amended. A request whose pipeline call returns \<open>result\<close>.
  \<^item> A non-empty list whose first element is a list: the \<^verbatim>\<open>data\<close> part is the JSON text
    of that first inner list.
  \<^item> A result that is false (\<^verbatim>\<open>None\<close>, \<^verbatim>\<open>False\<close>, zero, empty), a list whose first
    element is not a list, or a string: the \<^verbatim>\<open>data\<close> part is the JSON text of the
    result unchanged.
  \<^item> Any other result (a non-empty dict, a non-zero number, \<^verbatim>\<open>True\<close>): \<^verbatim>\<open>result[0]\<close>
    raises, and the \<^verbatim>\<open>data\<close> part is the error payload of that exception.
\<close>

theorem text_classification_first_if_nested:
  assumes "content_size inputs \<noteq> 0"
    and "get_as_string inputs ''data'' = Inr input_str"
    and "pipe rt (manual_seed rt 42) [PStr input_str] [] = (Inr result, r')"
  shows "(\<forall>inner rest. result = PList (PList inner # rest) \<longrightarrow>
            fst (text_classification_handle rt inputs s) =
              Inr (Output [(''data'', Py (PStr (json_dumps (float_repr rt) (PList inner))))]))
       \<and> (\<not> truthy (float_nonzero rt) result
            \<or> (\<exists>x rest. result = PList (x # rest) \<and> \<not> isinstance_list x)
            \<or> (\<exists>text. result = PStr text) \<longrightarrow>
            fst (text_classification_handle rt inputs s) =
              Inr (Output [(''data'', Py (PStr (json_dumps (float_repr rt) result)))]))
       \<and> (truthy (float_nonzero rt) result \<and> \<not> isinstance_list result
            \<and> (\<forall>text. result \<noteq> PStr text) \<longrightarrow>
            (\<exists>e. getitem_0 result = Inl e \<and>
              fst (text_classification_handle rt inputs s) =
                Inr (Output [(''data'', Py (PStr (error_payload (exn_str e))))])))"
proof -
  have run: "fst (text_classification_handle rt inputs s) =
      (case first_if_nested (float_nonzero rt) result of
         Inl e \<Rightarrow> Inr (Output [(''data'', Py (PStr (error_payload (exn_str e))))])
       | Inr v \<Rightarrow> Inr (Output [(''data'', Py (PStr (json_dumps (float_repr rt) v)))]))"
    using assms
    by (simp add: text_classification_handle_def text_classification_try_def prog_defs
          split: sum.splits)
  show ?thesis
    unfolding run
    by (cases result rule: getitem_0.cases) (auto simp: first_if_nested_def)
qed

text \<open>
  The example of the spec: the nested result
  \<^verbatim>\<open>[[{"label": "A", "score": 0.9}, {"label": "B", "score": 0.1}]]\<close> gives the JSON text
  of the inner list.
\<close>

theorem text_classification_first_if_nested_witness:
  "content_size (request ''hello'') \<noteq> 0
   \<and> get_as_string (request ''hello'') ''data'' = Inr ''hello''
   \<and> pipe (example_rt PNone (Inr (PList [label_scores])))
        (manual_seed (example_rt PNone (Inr (PList [label_scores]))) 42) [PStr ''hello''] []
       = (Inr (PList [label_scores]), 43)
   \<and> fst (text_classification_handle (example_rt PNone (Inr (PList [label_scores])))
            (request ''hello'') fresh)
       = Inr (Output [(''data'', Py (PStr (json_dumps id label_scores)))])"
proof -
  have nonempty: "content_size (request ''hello'') \<noteq> 0"
    by (simp add: request_def)
  have body: "get_as_string (request ''hello'') ''data'' = Inr ''hello''"
    by (simp add: request_def)
  have returned: "pipe (example_rt PNone (Inr (PList [label_scores])))
        (manual_seed (example_rt PNone (Inr (PList [label_scores]))) 42) [PStr ''hello''] []
       = (Inr (PList [label_scores]), 43)"
    by (simp add: example_rt_def)
  have nested: "PList [label_scores] =
      PList (PList [PDict [(''label'', PStr ''A''), (''score'', PFloat ''0.9'')],
                    PDict [(''label'', PStr ''B''), (''score'', PFloat ''0.1'')]] # [])"
    by (simp add: label_scores_def)
  from text_classification_first_if_nested [OF nonempty body returned, of fresh,
      THEN conjunct1, rule_format, OF nested]
    nonempty body returned
  show ?thesis
    by (simp add: label_scores_def example_rt_def)
qed

section \<open>Question answering\<close>

text \<open>
  C8, as the claim states it, has the empty string for every pipeline result that lacks
  the key \<^verbatim>\<open>answer\<close>. Line 46 tests \<^verbatim>\<open>"answer" in result\<close>, and \<^verbatim>\<open>in\<close> raises on a
  result that is no container: the result \<^verbatim>\<open>None\<close> is answered with the error payload of
  a \<^verbatim>\<open>TypeError\<close>, not with the empty string.
\<close>

theorem none_result_counterexample:
  "fst (qa_handle (example_rt qa_request (Inr PNone)) (request (json_dumps id qa_request)) fresh)
     = refused (''argument of type '' @ quoted ''NoneType'' @ '' is not iterable'')
   \<and> (refused (''argument of type '' @ quoted ''NoneType'' @ '' is not iterable'') :: exn + string Output)
       \<noteq> answered (PStr [])"
  by (simp add: qa_handle_def qa_try_def prog_defs example_defs
        refused_def answered_def error_payload_text)

text \<open>
  C8, amended. A request whose \<^verbatim>\<open>data\<close> part decodes to an object with the keys
  \<^verbatim>\<open>question\<close> and \<^verbatim>\<open>context\<close>, and whose pipeline call returns \<open>result\<close>, whatever
  value that is.
  \<^item> A dict: the \<^verbatim>\<open>data\<close> part is the value under \<^verbatim>\<open>answer\<close>, or the empty string when
    the dict has no such key; no error payload in either case.
  \<^item> A list or a string: the empty string when \<^verbatim>\<open>"answer"\<close> is not an element of the
    list (not a substring of the string); when it is, \<^verbatim>\<open>result["answer"]\<close> raises and
    the \<^verbatim>\<open>data\<close> part is the error payload of that \<^verbatim>\<open>TypeError\<close>.
  \<^item> \<^verbatim>\<open>None\<close>, a bool or a number: the membership test raises and the \<^verbatim>\<open>data\<close> part is
    the error payload of that \<^verbatim>\<open>TypeError\<close>.
\<close>

theorem qa_answer:
  assumes "content_size inputs \<noteq> 0"
    and "get_as_string inputs ''data'' = Inr input_str"
    and "json_loads rt input_str = Inr (PDict input_data)"
    and "map_of input_data ''question'' = Some question"
    and "map_of input_data ''context'' = Some context"
    and "pipe rt (manual_seed rt 42) [] [(''question'', question), (''context'', context)]
         = (Inr result, r')"
  shows "(\<forall>kvs. result = PDict kvs \<longrightarrow>
            fst (qa_handle rt inputs s) =
              answered (case map_of kvs ''answer'' of None \<Rightarrow> PStr [] | Some answer \<Rightarrow> answer))
       \<and> (\<forall>items. result = PList items \<longrightarrow>
            fst (qa_handle rt inputs s) =
              (if PStr ''answer'' \<in> set items
               then refused ''list indices must be integers or slices, not str''
               else answered (PStr [])))
       \<and> (\<forall>t. result = PStr t \<longrightarrow>
            fst (qa_handle rt inputs s) =
              (if is_substring ''answer'' t
               then refused (''string indices must be integers, not '' @ quoted ''str'')
               else answered (PStr [])))
       \<and> (is_scalar result \<longrightarrow> fst (qa_handle rt inputs s) = refused (not_iterable result))"
proof -
  have run: "fst (qa_handle rt inputs s) =
      (case contains_str ''answer'' result of
         Inl e \<Rightarrow> refused (exn_str e)
       | Inr present \<Rightarrow>
           if present
           then (case getitem_str result ''answer'' of
                   Inl e \<Rightarrow> refused (exn_str e) | Inr answer \<Rightarrow> answered answer)
           else answered (PStr []))"
    using assms
    by (simp add: qa_handle_def qa_try_def prog_defs answered_def refused_def split: sum.splits)
  show ?thesis
    unfolding run
    by (cases result)
       (auto simp: key_in_dict_iff not_iterable_def simp del: set_map split: option.splits)
qed

text \<open>
  The example of the spec: the request \<^verbatim>\<open>{"question": "q", "context": "c"}\<close> with a
  result without \<^verbatim>\<open>answer\<close> gives the empty string; with \<^verbatim>\<open>{"answer": "Paris"}\<close> it
  gives \<^verbatim>\<open>Paris\<close>. The list \<^verbatim>\<open>[{"answer": "Paris"}]\<close>, as the pipeline returns for
  several answers, gives the empty string.
\<close>

theorem qa_answer_witness:
  "content_size (request (json_dumps id qa_request)) \<noteq> 0
   \<and> json_loads (example_rt qa_request (Inr (PDict [(''score'', PFloat ''0.5'')])))
        (json_dumps id qa_request) = Inr qa_request
   \<and> map_of [(''question'', PStr ''q''), (''context'', PStr ''c'' :: string pyval)] ''question''
        = Some (PStr ''q'')
   \<and> map_of [(''question'', PStr ''q''), (''context'', PStr ''c'' :: string pyval)] ''context''
        = Some (PStr ''c'')
   \<and> fst (qa_handle (example_rt qa_request (Inr (PDict [(''score'', PFloat ''0.5'')])))
            (request (json_dumps id qa_request)) fresh)
       = Inr (Output [(''data'', Py (PStr []))])
   \<and> fst (qa_handle (example_rt qa_request (Inr (PDict [(''answer'', PStr ''Paris'')])))
            (request (json_dumps id qa_request)) fresh)
       = Inr (Output [(''data'', Py (PStr ''Paris''))])
   \<and> fst (qa_handle (example_rt qa_request (Inr (PList [PDict [(''answer'', PStr ''Paris'')]])))
            (request (json_dumps id qa_request)) fresh)
       = Inr (Output [(''data'', Py (PStr []))])"
proof -
  let ?req = "request (json_dumps id qa_request)"
  have nonempty: "content_size ?req \<noteq> 0"
    by (simp add: request_def)
  have body: "get_as_string ?req ''data'' = Inr (json_dumps id qa_request)"
    by (simp add: request_def)
  have decoded: "json_loads (example_rt qa_request (Inr result)) (json_dumps id qa_request)
      = Inr (PDict [(''question'', PStr ''q''), (''context'', PStr ''c'')])" for result
    by (simp add: example_rt_def loads_only_def qa_request_def)
  have question: "map_of [(''question'', PStr ''q''), (''context'', PStr ''c'' :: string pyval)] ''question''
      = Some (PStr ''q'')"
    by simp
  have passage: "map_of [(''question'', PStr ''q''), (''context'', PStr ''c'' :: string pyval)] ''context''
      = Some (PStr ''c'')"
    by simp
  have returned: "pipe (example_rt qa_request (Inr result))
      (manual_seed (example_rt qa_request (Inr result)) 42) []
      [(''question'', PStr ''q''), (''context'', PStr ''c'')] = (Inr result, 43)" for result
    by (simp add: example_rt_def)
  note cases = qa_answer [OF nonempty body decoded question passage returned]
  have absent: "fst (qa_handle (example_rt qa_request (Inr (PDict [(''score'', PFloat ''0.5'')])))
            ?req fresh) = Inr (Output [(''data'', Py (PStr []))])"
    using cases [of "PDict [(''score'', PFloat ''0.5'')]" fresh, THEN conjunct1]
    by (simp add: answered_def)
  have present: "fst (qa_handle (example_rt qa_request (Inr (PDict [(''answer'', PStr ''Paris'')])))
            ?req fresh) = Inr (Output [(''data'', Py (PStr ''Paris''))])"
    using cases [of "PDict [(''answer'', PStr ''Paris'')]" fresh, THEN conjunct1]
    by (simp add: answered_def)
  have several: "fst (qa_handle (example_rt qa_request (Inr (PList [PDict [(''answer'', PStr ''Paris'')]])))
            ?req fresh) = Inr (Output [(''data'', Py (PStr []))])"
    using cases [of "PList [PDict [(''answer'', PStr ''Paris'')]]" fresh,
        THEN conjunct2, THEN conjunct1]
    by (simp add: answered_def)
  have decoded': "json_loads (example_rt qa_request (Inr (PDict [(''score'', PFloat ''0.5'')])))
        (json_dumps id qa_request) = Inr qa_request"
    by (simp add: example_rt_def loads_only_def)
  show ?thesis
    by (intro conjI)
       (rule nonempty, rule decoded', rule question, rule passage, rule absent, rule present,
        rule several)
qed

section \<open>The seed\<close>

text \<open>
  C9. Every handler but the speech recognition one calls \<^verbatim>\<open>torch.manual_seed(42)\<close> before
  it calls the pipeline, and nothing touches the generator in between: if the pipeline is
  invoked, it is invoked in the state \<^verbatim>\<open>manual_seed(42)\<close> leaves. With the pipeline a
  function of the generator state and its arguments, the response to a request is then the
  same from whatever state the request finds (generator, trace, log): two calls with the
  same request and configuration give the same response. The speech recognition handler
  sets no seed (see \<open>asr_sets_no_seed\<close> below).
\<close>

theorem seeded_handlers_reproducible:
  assumes "task \<noteq> AutomaticSpeechRecognition"
  shows "fst (handle task cfg rt inputs s) = fst (handle task cfg rt inputs s')
       \<and> (calls (snd (handle task cfg rt inputs s)) = calls s
          \<or> (\<exists>args kwargs. calls (snd (handle task cfg rt inputs s))
                = calls s @ [(manual_seed rt 42, args, kwargs)]))"
  using assms
  by (cases task)
     (auto simp: handler_defs prog_defs split: if_splits sum.splits prod.splits)

text \<open>
  With a pipeline that returns what it draws from the generator, the text
  classification handler answers alike from the generator states 0 and 7.
\<close>

theorem seeded_handlers_reproducible_witness:
  "TextClassification \<noteq> AutomaticSpeechRecognition
   \<and> fst (handle TextClassification (example_cfg True) (dice_rt PNone) (request ''hello'') fresh)
     = fst (handle TextClassification (example_cfg True) (dice_rt PNone) (request ''hello'')
              (fresh\<lparr>rng := 7\<rparr>))
   \<and> fst (handle TextClassification (example_cfg True) (dice_rt PNone) (request ''hello'') fresh)
     = Inr (Output [(''data'', Py (PStr ''[42]''))])"
proof -
  have seeded: "TextClassification \<noteq> AutomaticSpeechRecognition"
    by simp
  have answer: "fst (handle TextClassification (example_cfg True) (dice_rt PNone) (request ''hello'') fresh)
     = Inr (Output [(''data'', Py (PStr ''[42]''))])"
    by (simp add: text_classification_handle_def text_classification_try_def prog_defs example_defs
          first_if_nested_def str_int_def hex_digit_def)
  have same: "fst (handle TextClassification (example_cfg True) (dice_rt PNone) (request ''hello'') fresh)
     = fst (handle TextClassification (example_cfg True) (dice_rt PNone) (request ''hello'')
              (fresh\<lparr>rng := 7\<rparr>))"
    by (rule seeded_handlers_reproducible [OF seeded, THEN conjunct1])
  show ?thesis
    by (intro conjI) (rule seeded, rule same, rule answer)
qed

text \<open>
  The speech recognition handler calls the pipeline in the generator state the request
  finds, and with the pipeline above its response shows that state.
\<close>

lemma asr_sets_no_seed:
  "calls (snd (asr_handle rt inputs s)) = calls s
   \<or> (\<exists>waveform. calls (snd (asr_handle rt inputs s)) = calls s @ [(rng s, [waveform], [])])"
  by (auto simp: asr_handle_def asr_try_def prog_defs split: sum.splits prod.splits)

lemma asr_depends_on_generator:
  "fst (asr_handle (dice_rt (PList [PFloat ''0.5''])) (request (json_dumps id (PList [PFloat ''0.5'']))) fresh)
     = Inr (Output [(''data'', Py (PStr ''[0]''))])
   \<and> fst (asr_handle (dice_rt (PList [PFloat ''0.5''])) (request (json_dumps id (PList [PFloat ''0.5''])))
            (fresh\<lparr>rng := 7\<rparr>))
     = Inr (Output [(''data'', Py (PStr ''[7]''))])"
  by (simp add: asr_handle_def asr_try_def prog_defs example_rt_def loads_only_def dice_rt_def
        request_def fresh_def str_int_def hex_digit_def)


section \<open>The except clause spans the whole of handle\<close>



end
